theory Spec2Isabelle
  imports Complex_Main "HOL-Library.Sublist" "HOL-Library.AList" "HOL-Library.Word"
begin

section \<open>Python values, exceptions and effects\<close>

text \<open>
  The scripts under \<^verbatim>\<open>puf_stage1\<close> read spreadsheets into pandas frames, check
  them against module-level tables and extract numbers. A call of a Python function
  either returns a value or raises; before that it may write lines to standard error,
  print, or open a spreadsheet. A call is therefore modelled by the list of its effects,
  in the order they happen, and a sum: \<open>Inl\<close> the exception raised, \<open>Inr\<close> the value
  returned. Python's \<^verbatim>\<open>None\<close> is the \<open>None\<close> of an option type.
\<close>

datatype exn = KeyError | IndexError | ValueError | TypeError | AttributeError | AssertionError

datatype event = Stderr string | Stdout string | ReadExcel string int

type_synonym 'a outcome = "event list \<times> (exn + 'a)"

text \<open>
  A cell of a sheet read with \<^verbatim>\<open>dtype=object\<close> is a string, a number, or the
  float NaN that pandas puts in an empty cell. The numbers are of a type \<open>'n\<close> that
  is left open: the code hands them on, renders them with \<^verbatim>\<open>str\<close> (the
  parameter \<open>str_num\<close> below) or turns a percentage into a rate (the parameter
  \<open>pct_num\<close>, for \<^verbatim>\<open>round(0.01 * val, 6)\<close>), which are floating-point operations
  of the Python library.
\<close>

datatype 'n cell = Str string | Num 'n | NaN

fun py_str :: "('n \<Rightarrow> string) \<Rightarrow> 'n cell \<Rightarrow> string" where
  "py_str str_num (Str s) = s"
| "py_str str_num (Num x) = str_num x"
| "py_str str_num NaN = ''nan''"

text \<open>\<^verbatim>\<open>xs[i]\<close> on a Python list or a numpy array: a negative index counts from the end.\<close>

definition py_index :: "'a list \<Rightarrow> int \<Rightarrow> exn + 'a" where
  "py_index xs i =
     (let n = int (length xs) in
      if 0 \<le> i \<and> i < n then Inr (xs ! nat i)
      else if - n \<le> i \<and> i < 0 then Inr (xs ! nat (n + i))
      else Inl IndexError)"

text \<open>\<^verbatim>\<open>s.startswith(p)\<close>: the first \<open>len(p)\<close> characters of \<open>s\<close> are \<open>p\<close>.\<close>

definition startswith :: "string \<Rightarrow> string \<Rightarrow> bool" where
  "startswith s p = (take (length p) s = p)"

text \<open>
  A one-character string is its code point; \<^verbatim>\<open>ord\<close> reads it and \<^verbatim>\<open>chr\<close>
  builds one, raising \<^verbatim>\<open>ValueError\<close> outside \<^verbatim>\<open>range(0x110000)\<close>.
\<close>

type_synonym pychar = nat

definition letter :: "char \<Rightarrow> pychar" where
  "letter c = of_char c"

definition py_ord :: "pychar \<Rightarrow> int" where
  "py_ord c = int c"

definition py_chr :: "int \<Rightarrow> exn + pychar" where
  "py_chr i = (if 0 \<le> i \<and> i < 1114112 then Inr (nat i) else Inl ValueError)"

text \<open>The decimal rendering of an integer inside an f-string.\<close>

fun str_nat :: "nat \<Rightarrow> string" where
  "str_nat n =
     (if n < 10 then [char_of (48 + n)]
      else str_nat (n div 10) @ [char_of (48 + n mod 10)])"

declare str_nat.simps [simp del]

definition str_int :: "int \<Rightarrow> string" where
  "str_int i = (if i < 0 then CHR ''-'' # str_nat (nat (- i)) else str_nat (nat i))"

definition stderr_write :: "string \<Rightarrow> string \<Rightarrow> event" where
  "stderr_write tag msg = Stderr (tag @ '': '' @ msg @ [CHR 0x0A])"

section \<open>\<^verbatim>\<open>cbo_chained_cpiu.py\<close>: the expected structure of the CBO sheet\<close>

text \<open>
  The module-level tables \<^verbatim>\<open>CBO_SHEET\<close>, \<^verbatim>\<open>CBO_STR_COLS\<close>, \<^verbatim>\<open>CBO_YEAR\<close> and
  \<^verbatim>\<open>CBO_ROWS\<close> are the fields of one record, so that the functions can be studied at
  every table and not only at the one of February 2024. A dictionary is the list of its
  items in insertion order, with distinct keys. An entry of \<^verbatim>\<open>CBO_ROWS\<close> has a row
  number, a label, and possibly the key \<^verbatim>\<open>"pct"\<close>, whose presence is the field
  \<open>pct\<close>.
\<close>

record cbo_year =
  first_year :: int
  first_col :: pychar
  last_year :: int
  last_col :: pychar

record cbo_row =
  row :: int
  label :: string
  pct :: bool

record cbo_struct =
  CBO_SHEET :: int
  CBO_STR_COLS :: "int list"
  CBO_YEAR :: cbo_year
  CBO_ROWS :: "(string \<times> cbo_row) list"

definition CBO :: cbo_struct where
  "CBO =
     \<lparr> CBO_SHEET = 1,
       CBO_STR_COLS = [0, 1, 2, 3],
       CBO_YEAR = \<lparr> first_year = 2021, first_col = letter CHR ''E'',
                    last_year = 2034, last_col = letter CHR ''R'' \<rparr>,
       CBO_ROWS =
         [(''year'', \<lparr> row = 8, label = ''Tax Year'', pct = False \<rparr>),
          (''c_cpiu'', \<lparr> row = 158, label = ''Chained consumer price index'', pct = False \<rparr>)] \<rparr>"

text \<open>
  The sheet is read with \<^verbatim>\<open>header=None\<close>: columns and rows are numbered from 0. The
  frame is the list of its columns, all of one length.
\<close>

type_synonym 'n dataframe = "'n cell list list"

text \<open>\<^verbatim>\<open>cbodf[col]\<close>: the column labelled \<open>col\<close>; a label that is no column is a \<^verbatim>\<open>KeyError\<close>.\<close>

definition getitem :: "'n dataframe \<Rightarrow> int \<Rightarrow> exn + 'n cell list" where
  "getitem cbodf c =
     (if 0 \<le> c \<and> c < int (length cbodf) then Inr (cbodf ! nat c) else Inl KeyError)"

text \<open>\<^verbatim>\<open>cbodf.iat[r, c]\<close>: access by integer position, on both axes.\<close>

definition iat :: "'n dataframe \<Rightarrow> int \<Rightarrow> int \<Rightarrow> exn + 'n cell" where
  "iat cbodf r c =
     (case py_index cbodf c of
        Inl e \<Rightarrow> Inl e
      | Inr column \<Rightarrow> py_index column r)"

definition rindex :: "int \<Rightarrow> int" where
  "rindex row_number = row_number - 1"

definition cindex :: "pychar \<Rightarrow> int" where
  "cindex capital_letter = py_ord capital_letter - py_ord (letter CHR ''A'')"

subsection \<open>\<^verbatim>\<open>cbo_value\<close>\<close>

text \<open>
  Each of the three argument checks writes its own line; after all three the function
  returns \<^verbatim>\<open>None\<close> if one of them failed. Otherwise it reads one cell.
\<close>

definition cbo_value_checks :: "cbo_struct \<Rightarrow> string \<Rightarrow> int \<Rightarrow> event list" where
  "cbo_value_checks S name yr =
     (if map_of (CBO_ROWS S) name = None
      then [stderr_write ''CBO'' (''name '' @ name @ '' not in CBO_ROWS data structure'')]
      else []) @
     (if yr < first_year (CBO_YEAR S)
      then [stderr_write ''CBO'' (''year '' @ str_int yr @ '' less than first year '' @
                                 str_int (first_year (CBO_YEAR S)))]
      else []) @
     (if yr > last_year (CBO_YEAR S)
      then [stderr_write ''CBO'' (''year '' @ str_int yr @ '' greater than last year '' @
                                 str_int (last_year (CBO_YEAR S)))]
      else [])"

definition pct_value :: "('n \<Rightarrow> 'n) \<Rightarrow> 'n cell \<Rightarrow> exn + 'n cell" where
  "pct_value pct_num val =
     (case val of
        Str s \<Rightarrow> Inl TypeError
      | Num x \<Rightarrow> Inr (Num (pct_num x))
      | NaN \<Rightarrow> Inr NaN)"

definition cbo_value ::
  "('n \<Rightarrow> 'n) \<Rightarrow> cbo_struct \<Rightarrow> 'n dataframe \<Rightarrow> string \<Rightarrow> int \<Rightarrow> 'n cell option outcome" where
  "cbo_value pct_num S cbodf name yr =
     (let errs = cbo_value_checks S name yr in
      if errs \<noteq> [] then (errs, Inr None)
      else
        case map_of (CBO_ROWS S) name of
          None \<Rightarrow> ([], Inl KeyError)
        | Some entry \<Rightarrow>
            (case py_chr (py_ord (first_col (CBO_YEAR S)) + yr - first_year (CBO_YEAR S)) of
               Inl e \<Rightarrow> ([], Inl e)
             | Inr ltr \<Rightarrow>
                 (case iat cbodf (rindex (row entry)) (cindex ltr) of
                    Inl e \<Rightarrow> ([], Inl e)
                  | Inr val \<Rightarrow>
                      if pct entry then ([], map_sum id Some (pct_value pct_num val))
                      else ([], Inr (Some val)))))"

subsection \<open>\<^verbatim>\<open>check_cbo_year\<close>\<close>

definition check_cbo_year :: "cbo_struct \<Rightarrow> event list \<times> int" where
  "check_cbo_year S =
     (let ydiff = last_year (CBO_YEAR S) - first_year (CBO_YEAR S);
          cdiff = cindex (last_col (CBO_YEAR S)) - cindex (first_col (CBO_YEAR S))
      in if ydiff \<noteq> cdiff
         then ([stderr_write ''STRUCT'' ''CBO_YEAR contents are inconsistent''], 1)
         else ([], 0))"

subsection \<open>\<^verbatim>\<open>read_cbo_label\<close>\<close>

text \<open>
  \<^verbatim>\<open>cbolabel\<close> maps a column number to the strings of that column. The loop over
  \<^verbatim>\<open>CBO_STR_COLS\<close> returns the first string that is not \<^verbatim>\<open>"nan"\<close>, and
  \<^verbatim>\<open>None\<close> after the last column.
\<close>

type_synonym cbolabel = "(int \<times> string list) list"

fun read_cbo_label_cols :: "cbolabel \<Rightarrow> int \<Rightarrow> int list \<Rightarrow> exn + string option" where
  "read_cbo_label_cols lab ridx [] = Inr None"
| "read_cbo_label_cols lab ridx (c # cs) =
     (case map_of lab c of
        None \<Rightarrow> Inl KeyError
      | Some strs \<Rightarrow>
          (case py_index strs ridx of
             Inl e \<Rightarrow> Inl e
           | Inr lbl \<Rightarrow>
               if lbl \<noteq> ''nan'' then Inr (Some lbl)
               else read_cbo_label_cols lab ridx cs))"

definition read_cbo_label :: "cbo_struct \<Rightarrow> cbolabel \<Rightarrow> int \<Rightarrow> exn + string option" where
  "read_cbo_label S lab row_number = read_cbo_label_cols lab (rindex row_number) (CBO_STR_COLS S)"

subsection \<open>\<^verbatim>\<open>read_check_spreadsheet\<close>\<close>

text \<open>
  The dictionary of the string columns, built column by column; an assignment to a key
  replaces its value or adds the key at the end.
\<close>

fun extract_labels ::
  "('n \<Rightarrow> string) \<Rightarrow> 'n dataframe \<Rightarrow> int list \<Rightarrow> cbolabel \<Rightarrow> exn + cbolabel" where
  "extract_labels str_num cbodf [] lab = Inr lab"
| "extract_labels str_num cbodf (c # cs) lab =
     (case getitem cbodf c of
        Inl e \<Rightarrow> Inl e
      | Inr column \<Rightarrow>
          extract_labels str_num cbodf cs
            (AList.update c (map (py_str str_num) column) lab))"

text \<open>
  The loop over \<^verbatim>\<open>CBO_ROWS.items()\<close>. It ends in one of three ways: all entries
  passed (\<open>True\<close>), an entry's label does not start as expected, which is reported
  and ends the function with \<^verbatim>\<open>None\<close> (\<open>False\<close>), or an exception. Calling
  \<^verbatim>\<open>startswith\<close> on the \<^verbatim>\<open>None\<close> that \<^verbatim>\<open>read_cbo_label\<close> returns for a row
  without label is an \<^verbatim>\<open>AttributeError\<close>.
\<close>

fun check_rows :: "cbo_struct \<Rightarrow> cbolabel \<Rightarrow> (string \<times> cbo_row) list \<Rightarrow> bool outcome" where
  "check_rows S lab [] = ([], Inr True)"
| "check_rows S lab ((cname, cdict) # items) =
     (case read_cbo_label S lab (row cdict) of
        Inl e \<Rightarrow> ([], Inl e)
      | Inr None \<Rightarrow> ([], Inl AttributeError)
      | Inr (Some alabel) \<Rightarrow>
          if \<not> startswith alabel (label cdict)
          then ([stderr_write ''READ'' (''for '' @ cname @ '' expected label is '' @
                                       label cdict @ '' but found '' @ alabel)],
                Inr False)
          else check_rows S lab items)"

text \<open>
  \<open>lky\<close> and \<open>lby\<close> are \<^verbatim>\<open>taxcalc.Policy.LAST_KNOWN_YEAR\<close> and
  \<^verbatim>\<open>LAST_BUDGET_YEAR\<close>; \<open>read_excel\<close> is \<^verbatim>\<open>pandas.read_excel\<close> on the files of the
  machine, \<open>None\<close> where it raises (the bare \<^verbatim>\<open>except\<close> catches whatever it raises).
\<close>

definition check_policy_years :: "cbo_struct \<Rightarrow> int \<Rightarrow> int \<Rightarrow> event list" where
  "check_policy_years S lky lby =
     (if \<not> (first_year (CBO_YEAR S) + 1 \<le> lky \<and> lky < last_year (CBO_YEAR S))
      then [stderr_write ''STRUCT'' (''Policy.LAST_KNOWN_YEAR='' @ str_int lky @
                                    '' inconsistent with CBO_YEAR info'')]
      else []) @
     (if \<not> (first_year (CBO_YEAR S) + 2 \<le> lby \<and> lby < last_year (CBO_YEAR S) + 1)
      then [stderr_write ''STRUCT'' (''Policy.LAST_BUDGET_YEAR='' @ str_int lby @
                                    '' inconsistent with CBO_YEAR info'')]
      else [])"

definition check_sheet ::
  "('n \<Rightarrow> string) \<Rightarrow> cbo_struct \<Rightarrow> 'n dataframe \<Rightarrow> 'n dataframe option outcome" where
  "check_sheet str_num S cbodf =
     (case extract_labels str_num cbodf (CBO_STR_COLS S) [] of
        Inl e \<Rightarrow> ([], Inl e)
      | Inr lab \<Rightarrow>
          (case check_rows S lab (CBO_ROWS S) of
             (evs, Inl e) \<Rightarrow> (evs, Inl e)
           | (evs, Inr False) \<Rightarrow> (evs, Inr None)
           | (evs, Inr True) \<Rightarrow> (evs, Inr (Some cbodf))))"

definition read_check_spreadsheet ::
  "('n \<Rightarrow> string) \<Rightarrow> cbo_struct \<Rightarrow> int \<Rightarrow> int \<Rightarrow> (string \<Rightarrow> int \<Rightarrow> 'n dataframe option) \<Rightarrow>
   string \<Rightarrow> 'n dataframe option outcome" where
  "read_check_spreadsheet str_num S lky lby read_excel fname =
     (let (evs0, rcode) = check_cbo_year S;
          evs1 = check_policy_years S lky lby
      in if rcode \<noteq> 0 then (evs0, Inr None)
         else if evs1 \<noteq> [] then (evs0 @ evs1, Inr None)
         else
           (case read_excel fname (CBO_SHEET S) of
              None \<Rightarrow>
                (evs0 @ [ReadExcel fname (CBO_SHEET S),
                         stderr_write ''READ'' (''could not read sheet in '' @ fname @
                                               '' into a DataFrame'')],
                 Inr None)
            | Some cbodf \<Rightarrow>
                (let (evs, r) = check_sheet str_num S cbodf
                 in (evs0 @ ReadExcel fname (CBO_SHEET S) # evs, r))))"

section \<open>\<^verbatim>\<open>updatesoi.py\<close>: the wage bins of SOI table 1.4\<close>

text \<open>
  Table 1.4 is read with four header rows and the first column as index: a frame has
  the labels of its rows and, for each column, the labels of the header levels and the
  values. Every column has one value for each row.

  A column has the dtype pandas gave it. A column of whole numbers is \<^verbatim>\<open>int64\<close>:
  its values are words of 64 bits, read as signed numbers by \<open>sint\<close>, and their
  addition wraps around. Any other numeric column is \<^verbatim>\<open>float64\<close>; its values are of
  a type \<open>'f\<close> that is left open, and the two operations of numpy that the code
  applies to them are parameters: \<open>nansum\<close>, the sum of a float column as
  \<^verbatim>\<open>.sum()\<close> computes it, and \<open>to_int64\<close>, the conversion \<^verbatim>\<open>.astype(int)\<close> of a
  float. A single value taken out of a column keeps the dtype.
\<close>

datatype 'f series = Int64 "64 word list" | Float64 "'f list"

datatype 'f scalar = I64 "64 word" | F64 'f

record 'f numpy =
  nansum :: "'f list \<Rightarrow> 'f"
  to_int64 :: "'f \<Rightarrow> 64 word"

fun series_len :: "'f series \<Rightarrow> nat" where
  "series_len (Int64 xs) = length xs"
| "series_len (Float64 ys) = length ys"


text \<open>\<^verbatim>\<open>.sum()\<close> of a column, and \<^verbatim>\<open>.astype(int)\<close> of a value: nothing to do on an
  \<^verbatim>\<open>int64\<close>.\<close>

fun series_sum :: "'f numpy \<Rightarrow> 'f series \<Rightarrow> 'f scalar" where
  "series_sum np (Int64 xs) = I64 (sum_list xs)"
| "series_sum np (Float64 ys) = F64 (nansum np ys)"

fun astype_int :: "'f numpy \<Rightarrow> 'f scalar \<Rightarrow> 64 word" where
  "astype_int np (I64 x) = x"
| "astype_int np (F64 y) = to_int64 np y"

record 'f soi_table =
  index :: "string list"
  columns :: "(string list \<times> 'f series) list"

definition frame_ok :: "'f soi_table \<Rightarrow> bool" where
  "frame_ok data = (\<forall>c \<in> set (columns data). series_len (snd c) = length (index data))"

definition TABLE14COLS :: "string list list" where
  "TABLE14COLS =
     [[''SS_return'', ''Social security benefits'', ''Total [1]'', ''Unnamed: 67_level_2'',
       ''Number of'' @ [CHR 0x0A] @ ''returns''],
      [''INTS'', ''Taxable interest'', ''Unnamed: 8_level_1'', ''Unnamed: 8_level_2'', ''Amount''],
      [''DIVS'', ''Ordinary dividends'', ''Unnamed: 12_level_1'', ''Unnamed: 12_level_2'',
       ''Amount''],
      [''SCHCI'', ''Business or profession'', ''Net'' @ [CHR 0x0A] @ ''income'',
       ''Unnamed: 20_level_2'', ''Amount''],
      [''SCHCL'', ''Business or profession'', ''Net'' @ [CHR 0x0A] @ ''loss'',
       ''Unnamed: 22_level_2'', ''Amount''],
      [''CGNS'', ''Sales of capital assets reported on Form 1040, Schedule D [2]'',
       ''Taxable'' @ [CHR 0x0A] @ ''net gain'', ''Unnamed: 26_level_2'', ''Amount''],
      [''Pension'', ''Pensions and annuities'', ''Unnamed: 38_level_1'', ''Taxable'', ''Amount''],
      [''SCHEI'', ''Total rental and royalty'', ''Net'' @ [CHR 0x0A] @ ''income'',
       ''Unnamed: 52_level_2'', ''Amount''],
      [''SCHEI'', ''Partnership and S corporation'', ''Net'' @ [CHR 0x0A] @ ''income'',
       ''Unnamed: 56_level_2'', ''Amount''],
      [''SCHEI'', ''Estate and trust'', ''Net'' @ [CHR 0x0A] @ ''income'',
       ''Unnamed: 60_level_2'', ''Amount''],
      [''SCHEL'', ''Total rental and royalty'', ''Net'' @ [CHR 0x0A] @ ''loss'',
       ''Unnamed: 54_level_2'', ''Amount''],
      [''SCHEL'', ''Partnership and S corporation'', ''Net'' @ [CHR 0x0A] @ ''loss'',
       ''Unnamed: 58_level_2'', ''Amount''],
      [''SCHEL'', ''Estate and trust'', ''Net'' @ [CHR 0x0A] @ ''loss'',
       ''Unnamed: 62_level_2'', ''Amount''],
      [''SS'', ''Social security benefits'', ''Total [1]'', ''Unnamed: 70_level_2'', ''Amount''],
      [''UCOMP'', ''Unemployment compensation'', ''Unnamed: 68_level_1'',
       ''Unnamed: 68_level_2'', ''Amount'']]"

definition PUFWAGES :: "(int \<times> int) list" where
  "PUFWAGES =
     [(2, 2), (3, 4), (5, 6), (7, 8), (9, 9), (10, 10), (11, 11), (12, 12), (13, 13),
      (14, 14), (15, 15), (17, 20)]"

definition CPSWAGES :: "(int \<times> int) list" where
  "CPSWAGES = [(2, 4), (5, 6), (7, 8), (9, 9), (10, 10), (11, 11), (12, 12), (13, 20)]"

text \<open>
  \<^verbatim>\<open>xs[lo:hi]\<close>: a bound below zero counts from the end, and a bound beyond the list
  is cut to it, silently. \<^verbatim>\<open>.iloc[lo:hi]\<close> slices the rows of a column in this way,
  and \<^verbatim>\<open>data.iloc[:n]\<close> keeps the first \<open>n\<close> rows of a frame, or all of them when
  there are fewer.
\<close>

definition py_slice :: "'a list \<Rightarrow> int \<Rightarrow> int \<Rightarrow> 'a list" where
  "py_slice xs lo hi =
     (let n = int (length xs);
          a = (if lo < 0 then max (lo + n) 0 else min lo n);
          b = (if hi < 0 then max (hi + n) 0 else min hi n)
      in take (nat (b - a)) (drop (nat a) xs))"

fun series_iloc :: "'f series \<Rightarrow> int \<Rightarrow> int \<Rightarrow> 'f series" where
  "series_iloc (Int64 xs) lo hi = Int64 (py_slice xs lo hi)"
| "series_iloc (Float64 ys) lo hi = Float64 (py_slice ys lo hi)"



text \<open>
  \<^verbatim>\<open>data[k]\<close> with a string on columns of several levels: the columns whose first
  label is \<open>k\<close>, without that level; a \<^verbatim>\<open>KeyError\<close> when there is none.
  \<^verbatim>\<open>data[ks]\<close> with a tuple of all the levels is the one column labelled so, and
  \<^verbatim>\<open>.loc[l]\<close> its value in the row labelled \<open>l\<close>.
\<close>

definition level_columns ::
  "string \<Rightarrow> (string list \<times> 'f series) list \<Rightarrow> (string list \<times> 'f series) list" where
  "level_columns k cs =
     map (\<lambda>c. (tl (fst c), snd c)) (filter (\<lambda>c. fst c \<noteq> [] \<and> hd (fst c) = k) cs)"

definition getitem_level :: "'f soi_table \<Rightarrow> string \<Rightarrow> exn + 'f soi_table" where
  "getitem_level data k =
     (let sub = level_columns k (columns data)
      in if sub = [] then Inl KeyError else Inr (data\<lparr>columns := sub\<rparr>))"



subsection \<open>\<^verbatim>\<open>table14_nonwages\<close>\<close>




subsection \<open>\<^verbatim>\<open>table14_wages\<close>\<close>

text \<open>
  After the assertion on the number of rows, the column of wages is selected level by
  level. For each pair \<open>(i, j)\<close> the rows \<^verbatim>\<open>i : j + 1\<close> are summed, \<^verbatim>\<open>[0]\<close> takes
  the sum of the first column that remains, and \<^verbatim>\<open>.astype(int)\<close> converts it.
\<close>

definition salaries_and_wages :: "'f soi_table \<Rightarrow> exn + 'f series" where
  "salaries_and_wages data =
     (case getitem_level data ''Salaries and wages'' of
        Inl e \<Rightarrow> Inl e
      | Inr d1 \<Rightarrow>
          (case getitem_level d1 ''Unnamed: 6_level_1'' of
             Inl e \<Rightarrow> Inl e
           | Inr d2 \<Rightarrow>
               (case getitem_level d2 ''Unnamed: 6_level_2'' of
                  Inl e \<Rightarrow> Inl e
                | Inr d3 \<Rightarrow> Inr (snd (hd (columns d3))))))"

fun wages_loop ::
  "'f numpy \<Rightarrow> 'f series \<Rightarrow> (int \<times> int) list \<Rightarrow> 64 word list \<Rightarrow> 64 word list" where
  "wages_loop np col [] was = was"
| "wages_loop np col ((i, j) # indicies) was =
     (let val = astype_int np (series_sum np (series_iloc col i (j + 1)))
      in wages_loop np col indicies (was @ [val]))"

definition table14_wages ::
  "'f numpy \<Rightarrow> 'f soi_table \<Rightarrow> (int \<times> int) list \<Rightarrow> exn + 64 word list" where
  "table14_wages np data indicies =
     (if length (index data) \<noteq> 21 then Inl AssertionError
      else
        case salaries_and_wages data of
          Inl e \<Rightarrow> Inl e
        | Inr col \<Rightarrow> Inr (wages_loop np col indicies []))"

subsection \<open>\<^verbatim>\<open>table14\<close>\<close>


section \<open>Example inputs\<close>

text \<open>
  Sheets with the layout the CBO tables expect: 158 rows, the labels of rows 8 and 158
  in column A, columns B to D empty, and from column E on one column for each year,
  with the year in row 8 and the index in row 158. The numbers are those of the
  module's documentation.
\<close>

definition sheet_column :: "'n cell \<Rightarrow> 'n cell \<Rightarrow> 'n cell list" where
  "sheet_column c8 c158 = replicate 7 NaN @ c8 # replicate 149 NaN @ [c158]"

definition example_sheet :: "'n cell \<Rightarrow> 'n cell \<Rightarrow> 'n cell list \<Rightarrow> 'n cell list \<Rightarrow> 'n dataframe" where
  "example_sheet l8 l158 years vals =
     sheet_column l8 l158 # replicate 3 (replicate 158 NaN) @ map2 sheet_column years vals"

definition cpiu_2024 :: "rat list" where
  "cpiu_2024 =
     [144.814090, 149.063510, 159.840000, 168.474670, 172.770430, 176.567340, 180.230100,
      183.738130, 187.305920, 190.989090, 194.765530, 198.642940, 202.612840, 206.669280]"

definition years_2024 :: "rat list" where
  "years_2024 =
     [2021, 2022, 2023, 2024, 2025, 2026, 2027, 2028, 2029, 2030, 2031, 2032, 2033, 2034]"

definition cbo_2024_sheet :: "rat dataframe" where
  "cbo_2024_sheet =
     example_sheet (Str ''Tax Year'') (Str ''Chained consumer price index'')
       (map Num years_2024) (map Num cpiu_2024)"

definition footnote_sheet :: "rat dataframe" where
  "footnote_sheet =
     example_sheet (Str ''Tax Year'') (Str ''Chained consumer price index'')
       (map Num years_2024) (Str ''n.a.'' # map Num (tl cpiu_2024))"

definition labels_sheet :: "string \<Rightarrow> string \<Rightarrow> int dataframe" where
  "labels_sheet l8 l158 = example_sheet (Str l8) (Str l158) [] []"

definition blank_row_sheet :: "int dataframe" where
  "blank_row_sheet = example_sheet NaN (Str ''Chained consumer price index'') [] []"

definition CBO_wrong_col :: cbo_struct where
  "CBO_wrong_col = CBO\<lparr>CBO_YEAR := (CBO_YEAR CBO)\<lparr>last_col := letter CHR ''Q''\<rparr>\<rparr>"

text \<open>A disk with one workbook, whose sheet 1 is given.\<close>

definition disk :: "string \<Rightarrow> 'n dataframe \<Rightarrow> string \<Rightarrow> int \<Rightarrow> 'n dataframe option" where
  "disk name df fname sheet = (if fname = name \<and> sheet = 1 then Some df else None)"

text \<open>
  The operations of \<^verbatim>\<open>float64\<close> on fractions that it represents exactly, with sums
  that it represents exactly too, such as 0.5 + 0.75: there the sum of a column is the
  sum of the fractions, and \<^verbatim>\<open>.astype(int)\<close> cuts off what follows the point.
\<close>

definition exact_float64 :: "rat numpy" where
  "exact_float64 =
     \<lparr> nansum = sum_list,
       to_int64 = (\<lambda>x. word_of_int (if x < 0 then \<lceil>x\<rceil> else \<lfloor>x\<rfloor>)) \<rparr>"

text \<open>
  A table 1.4 with \<open>n\<close> rows and a given column of wages: the row of all returns
  first; the number of returns with wages, which shares the first label with the
  column of wages, then the columns of \<^verbatim>\<open>TABLE14COLS\<close>, then the column of wages.
  Three columns of wages, of 21 rows: whole numbers, \<open>2 ^ k\<close> in row \<open>k\<close>, so that
  a sum tells which rows went into it; amounts with fractions in rows 3 and 4; and
  whole numbers so large in rows 17 to 20 that their sum leaves \<^verbatim>\<open>int64\<close>.
\<close>

definition soi_example :: "nat \<Rightarrow> rat series \<Rightarrow> rat soi_table" where
  "soi_example n wages =
     \<lparr> index = ''All returns, total'' # map str_nat [1..<n],
       columns =
         ([''Salaries and wages'', ''Unnamed: 5_level_1'', ''Unnamed: 5_level_2'',
           ''Number of'' @ [CHR 0x0A] @ ''returns''], Int64 (replicate n 7)) #
         map (\<lambda>c. (tl c, Int64 (replicate n 1))) TABLE14COLS @
         [([''Salaries and wages'', ''Unnamed: 6_level_1'', ''Unnamed: 6_level_2'', ''Amount''],
           wages)] \<rparr>"

definition powers :: "nat \<Rightarrow> 64 word list" where
  "powers n = map (\<lambda>k. 2 ^ k) [0..<n]"

definition fraction_wages :: "rat list" where
  "fraction_wages = replicate 3 0 @ [1 / 2, 3 / 4] @ replicate 16 0"

definition huge_wages :: "64 word list" where
  "huge_wages = replicate 17 0 @ replicate 4 4611686018427387904"


section \<open>Properties of the CBO extraction\<close>

subsection \<open>Auxiliary facts\<close>

lemma startswith_prefix: "startswith s p \<longleftrightarrow> prefix p s"
  by (auto simp: startswith_def prefix_def) (metis append_eq_conv_conj)

lemma CBO_simps:
  "CBO_SHEET CBO = 1"
  "CBO_STR_COLS CBO = [0, 1, 2, 3]"
  "first_year (CBO_YEAR CBO) = 2021"
  "last_year (CBO_YEAR CBO) = 2034"
  "first_col (CBO_YEAR CBO) = 69"
  "last_col (CBO_YEAR CBO) = 82"
  "CBO_ROWS CBO =
     [(''year'', \<lparr> row = 8, label = ''Tax Year'', pct = False \<rparr>),
      (''c_cpiu'', \<lparr> row = 158, label = ''Chained consumer price index'', pct = False \<rparr>)]"
  by (simp_all add: CBO_def letter_def)

lemma check_cbo_year_events:
  "fst (check_cbo_year S) =
     (if snd (check_cbo_year S) = 0 then []
      else [stderr_write ''STRUCT'' ''CBO_YEAR contents are inconsistent''])"
  by (simp add: check_cbo_year_def Let_def)

lemma cbo_year_ok: "snd (check_cbo_year CBO) = 0"
  by (simp add: check_cbo_year_def CBO_simps cindex_def py_ord_def letter_def)

lemma policy_years_ok: "check_policy_years CBO 2025 2034 = []"
  by (simp add: check_policy_years_def CBO_simps)

lemma cbo_value_checks_empty:
  "cbo_value_checks S name yr = [] \<longleftrightarrow>
     map_of (CBO_ROWS S) name \<noteq> None \<and>
     first_year (CBO_YEAR S) \<le> yr \<and> yr \<le> last_year (CBO_YEAR S)"
  by (auto simp: cbo_value_checks_def)

text \<open>What \<^verbatim>\<open>cbo_value\<close> does once its three checks have passed.\<close>

lemma cbo_value_in_range:
  assumes "map_of (CBO_ROWS S) name = Some entry"
    and "first_year (CBO_YEAR S) \<le> yr" and "yr \<le> last_year (CBO_YEAR S)"
    and "py_chr (py_ord (first_col (CBO_YEAR S)) + yr - first_year (CBO_YEAR S)) = Inr ltr"
  shows "cbo_value pct_num S cbodf name yr =
           ([], case iat cbodf (rindex (row entry)) (cindex ltr) of
                  Inl e \<Rightarrow> Inl e
                | Inr val \<Rightarrow>
                    if pct entry then map_sum id Some (pct_value pct_num val)
                    else Inr (Some val))"
proof -
  have "cbo_value_checks S name yr = []"
    using assms by (simp add: cbo_value_checks_empty)
  then show ?thesis
    using assms by (simp add: cbo_value_def Let_def split: sum.splits)
qed

text \<open>Columns that hold \<^verbatim>\<open>"nan"\<close> in the row are passed over.\<close>

lemma read_cbo_label_cols_skip:
  assumes "\<forall>p \<in> set pre. \<exists>strs. map_of lab p = Some strs \<and> py_index strs ridx = Inr ''nan''"
  shows "read_cbo_label_cols lab ridx (pre @ cs) = read_cbo_label_cols lab ridx cs"
  using assms by (induction pre) auto

text \<open>Entries whose label starts as expected are passed over.\<close>

lemma check_rows_skip:
  assumes "\<forall>d \<in> set pre. \<exists>l. read_cbo_label S lab (row (snd d)) = Inr (Some l) \<and>
                              startswith l (label (snd d))"
  shows "check_rows S lab (pre @ items) = check_rows S lab items"
  using assms by (induction pre) auto

lemma check_sheet_mismatch:
  assumes "extract_labels str_num cbodf (CBO_STR_COLS S) [] = Inr lab"
    and "CBO_ROWS S = pre @ (cname, cdict) # post"
    and "\<forall>d \<in> set pre. \<exists>l. read_cbo_label S lab (row (snd d)) = Inr (Some l) \<and>
                            startswith l (label (snd d))"
    and "read_cbo_label S lab (row cdict) = Inr (Some alabel)"
    and "\<not> startswith alabel (label cdict)"
  shows "check_sheet str_num S cbodf =
           ([stderr_write ''READ'' (''for '' @ cname @ '' expected label is '' @
                                    label cdict @ '' but found '' @ alabel)],
            Inr None)"
  using assms by (simp add: check_sheet_def check_rows_skip)

text \<open>With consistent tables and a readable file, the sheet is read and then checked.\<close>

lemma read_check_spreadsheet_read:
  assumes "snd (check_cbo_year S) = 0"
    and "check_policy_years S lky lby = []"
    and "read_excel fname (CBO_SHEET S) = Some cbodf"
  shows "read_check_spreadsheet str_num S lky lby read_excel fname =
           (ReadExcel fname (CBO_SHEET S) # fst (check_sheet str_num S cbodf),
            snd (check_sheet str_num S cbodf))"
  using assms check_cbo_year_events [of S]
  by (cases "check_cbo_year S") (simp add: read_check_spreadsheet_def split: prod.splits)

text \<open>The example sheets, cell by cell.\<close>

lemma sheet_column_nth:
  "sheet_column a b ! 7 = a" "sheet_column a b ! 157 = b" "length (sheet_column a b) = 158"
  by (simp_all add: sheet_column_def nth_append)

lemma example_sheet_iat:
  "k < length years \<Longrightarrow> k < length vals \<Longrightarrow>
     iat (example_sheet l8 l158 years vals) 157 (4 + int k) = Inr (vals ! k)"
  by (simp add: iat_def py_index_def example_sheet_def nth_append sheet_column_nth
      nat_add_distrib)

lemma labels_of_example:
  "extract_labels str_num (example_sheet l8 l158 years vals) [0, 1, 2, 3] [] =
     Inr [(0, map (py_str str_num) (sheet_column l8 l158)), (1, replicate 158 ''nan''),
          (2, replicate 158 ''nan''), (3, replicate 158 ''nan'')]"
  by (simp add: example_sheet_def getitem_def nth_append)

lemma label_of_example:
  "read_cbo_label CBO
     [(0, map (py_str str_num) (sheet_column l8 l158)), (1, replicate 158 ''nan''),
      (2, replicate 158 ''nan''), (3, replicate 158 ''nan'')] 8 =
   Inr (if py_str str_num l8 = ''nan'' then None else Some (py_str str_num l8))"
  "read_cbo_label CBO
     [(0, map (py_str str_num) (sheet_column l8 l158)), (1, replicate 158 ''nan''),
      (2, replicate 158 ''nan''), (3, replicate 158 ''nan'')] 158 =
   Inr (if py_str str_num l158 = ''nan'' then None else Some (py_str str_num l158))"
  by (simp_all add: read_cbo_label_def CBO_simps rindex_def py_index_def sheet_column_nth)

subsection \<open>Consistency of the year columns\<close>

text \<open>
  Claim C7. \<^verbatim>\<open>check_cbo_year\<close> returns 0 exactly when the difference of the last and
  the first year equals the difference of the indices of their columns. When it does
  not, \<^verbatim>\<open>read_check_spreadsheet\<close> returns \<^verbatim>\<open>None\<close> after the one line on standard
  error and without opening a spreadsheet, whatever the file and the policy years are.
  The tables of the module (2021 in column E, 2034 in column R) pass; with column Q
  for 2034 they do not.
\<close>

theorem check_cbo_year_consistency:
  "(snd (check_cbo_year S) = 0 \<longleftrightarrow>
      last_year (CBO_YEAR S) - first_year (CBO_YEAR S) =
      cindex (last_col (CBO_YEAR S)) - cindex (first_col (CBO_YEAR S))) \<and>
   (snd (check_cbo_year S) \<noteq> 0 \<longrightarrow>
      read_check_spreadsheet str_num S lky lby read_excel fname =
        ([stderr_write ''STRUCT'' ''CBO_YEAR contents are inconsistent''], Inr None)) \<and>
   snd (check_cbo_year CBO) = 0 \<and>
   snd (check_cbo_year CBO_wrong_col) \<noteq> 0"
proof (intro conjI impI)
  show "snd (check_cbo_year S) = 0 \<longleftrightarrow>
      last_year (CBO_YEAR S) - first_year (CBO_YEAR S) =
      cindex (last_col (CBO_YEAR S)) - cindex (first_col (CBO_YEAR S))"
    by (simp add: check_cbo_year_def Let_def)
next
  assume "snd (check_cbo_year S) \<noteq> 0"
  then show "read_check_spreadsheet str_num S lky lby read_excel fname =
        ([stderr_write ''STRUCT'' ''CBO_YEAR contents are inconsistent''], Inr None)"
    by (simp add: read_check_spreadsheet_def check_cbo_year_def Let_def split: if_splits)
next
  show "snd (check_cbo_year CBO) = 0"
    by (rule cbo_year_ok)
next
  show "snd (check_cbo_year CBO_wrong_col) \<noteq> 0"
    by (simp add: check_cbo_year_def CBO_wrong_col_def CBO_def cindex_def py_ord_def
        letter_def Let_def)
qed

theorem check_cbo_year_consistency_witness:
  "read_check_spreadsheet str_int CBO_wrong_col 2025 2034
     (disk ''cbo.xlsx'' (labels_sheet ''Tax Year'' ''Chained consumer price index''))
     ''cbo.xlsx'' =
   ([stderr_write ''STRUCT'' ''CBO_YEAR contents are inconsistent''], Inr None)"
  using check_cbo_year_consistency [where S = CBO_wrong_col and str_num = str_int
      and lky = 2025 and lby = 2034 and fname = "''cbo.xlsx''"
      and read_excel = "disk ''cbo.xlsx'' (labels_sheet ''Tax Year'' ''Chained consumer price index'')"]
  by blast

subsection \<open>Requests outside the tables\<close>

text \<open>
  Claim C3. For a name that is no key of \<^verbatim>\<open>CBO_ROWS\<close>, or a year before the first
  or after the last year, \<^verbatim>\<open>cbo_value\<close> returns \<^verbatim>\<open>None\<close>, the way this code
  signals a failed lookup, after writing at least one line that says why; it returns
  no cell, so no number stands in for the failure, and it does not depend on the sheet.
  With the tables of the module this is so for 2020 and for 2035.
\<close>

theorem cbo_value_rejects_invalid_request:
  "(map_of (CBO_ROWS S) name = None \<or> yr < first_year (CBO_YEAR S) \<or>
    last_year (CBO_YEAR S) < yr \<longrightarrow>
      cbo_value pct_num S cbodf name yr = (cbo_value_checks S name yr, Inr None) \<and>
      cbo_value_checks S name yr \<noteq> [] \<and>
      (\<forall>v. snd (cbo_value pct_num S cbodf name yr) \<noteq> Inr (Some v))) \<and>
   snd (cbo_value pct_num CBO cbodf name 2020) = Inr None \<and>
   snd (cbo_value pct_num CBO cbodf name 2035) = Inr None"
proof (intro conjI impI)
  assume bad: "map_of (CBO_ROWS S) name = None \<or> yr < first_year (CBO_YEAR S) \<or>
    last_year (CBO_YEAR S) < yr"
  then have ne: "cbo_value_checks S name yr \<noteq> []"
    by (auto simp: cbo_value_checks_empty)
  then show "cbo_value pct_num S cbodf name yr = (cbo_value_checks S name yr, Inr None)"
    by (simp add: cbo_value_def Let_def)
  then show "\<forall>v. snd (cbo_value pct_num S cbodf name yr) \<noteq> Inr (Some v)"
    by simp
  from ne show "cbo_value_checks S name yr \<noteq> []" .
next
  have "cbo_value_checks CBO name 2020 \<noteq> []"
    by (simp add: cbo_value_checks_empty CBO_simps)
  then show "snd (cbo_value pct_num CBO cbodf name 2020) = Inr None"
    by (simp add: cbo_value_def Let_def)
next
  have "cbo_value_checks CBO name 2035 \<noteq> []"
    by (simp add: cbo_value_checks_empty CBO_simps)
  then show "snd (cbo_value pct_num CBO cbodf name 2035) = Inr None"
    by (simp add: cbo_value_def Let_def)
qed

theorem cbo_value_rejects_invalid_request_witness:
  "cbo_value id CBO cbo_2024_sheet ''c_cpiu'' 2020 =
     ([stderr_write ''CBO'' ''year 2020 less than first year 2021''], Inr None) \<and>
   cbo_value id CBO cbo_2024_sheet ''c_cpiu'' 2035 =
     ([stderr_write ''CBO'' ''year 2035 greater than last year 2034''], Inr None) \<and>
   cbo_value id CBO cbo_2024_sheet ''gdp'' 2021 =
     ([stderr_write ''CBO'' ''name gdp not in CBO_ROWS data structure''], Inr None)"
proof -
  have s: "str_int 2020 = ''2020''" "str_int 2021 = ''2021''"
    "str_int 2034 = ''2034''" "str_int 2035 = ''2035''"
    by code_simp+
  show ?thesis
    using cbo_value_rejects_invalid_request [of CBO "''c_cpiu''" 2020 id cbo_2024_sheet]
      cbo_value_rejects_invalid_request [of CBO "''c_cpiu''" 2035 id cbo_2024_sheet]
      cbo_value_rejects_invalid_request [of CBO "''gdp''" 2021 id cbo_2024_sheet]
    by (simp add: CBO_simps cbo_value_checks_def s)
qed

subsection \<open>The cell that is read\<close>

text \<open>
  Claim C2. For a key of \<^verbatim>\<open>CBO_ROWS\<close> and a year from the first to the last, with
  year columns that passed \<^verbatim>\<open>check_cbo_year\<close> and end at a character, \<^verbatim>\<open>cbo_value\<close>
  writes nothing and reads exactly one cell: the one in the row of the entry (its
  number less one, rows being counted from 0) and in the column of the letter whose
  code is that of the first column plus the distance of the year from the first year.
  What it returns is that cell (turned into a rate when the entry has the key
  \<^verbatim>\<open>"pct"\<close>), or the exception of the access. With the tables of the module, 2021
  is read in column E and 2034 in column R of row 158.
\<close>

theorem cbo_value_reads_year_column:
  "(map_of (CBO_ROWS S) name = Some entry \<longrightarrow>
    first_year (CBO_YEAR S) \<le> yr \<longrightarrow> yr \<le> last_year (CBO_YEAR S) \<longrightarrow>
    snd (check_cbo_year S) = 0 \<longrightarrow> last_col (CBO_YEAR S) < 1114112 \<longrightarrow>
      (\<exists>ltr. py_ord ltr = py_ord (first_col (CBO_YEAR S)) + (yr - first_year (CBO_YEAR S)) \<and>
         cbo_value pct_num S cbodf name yr =
           ([], case iat cbodf (row entry - 1) (cindex ltr) of
                  Inl e \<Rightarrow> Inl e
                | Inr val \<Rightarrow>
                    if pct entry then map_sum id Some (pct_value pct_num val)
                    else Inr (Some val)))) \<and>
   cbo_value pct_num CBO cbodf ''c_cpiu'' 2021 =
     ([], map_sum id Some (iat cbodf 157 (cindex (letter CHR ''E'')))) \<and>
   cbo_value pct_num CBO cbodf ''c_cpiu'' 2034 =
     ([], map_sum id Some (iat cbodf 157 (cindex (letter CHR ''R''))))"
proof (intro conjI impI)
  assume known: "map_of (CBO_ROWS S) name = Some entry"
    and lo: "first_year (CBO_YEAR S) \<le> yr" and hi: "yr \<le> last_year (CBO_YEAR S)"
    and ok: "snd (check_cbo_year S) = 0" and valid: "last_col (CBO_YEAR S) < 1114112"
  let ?k = "py_ord (first_col (CBO_YEAR S)) + (yr - first_year (CBO_YEAR S))"
  have eq: "last_year (CBO_YEAR S) - first_year (CBO_YEAR S) =
            cindex (last_col (CBO_YEAR S)) - cindex (first_col (CBO_YEAR S))"
    using ok by (simp add: check_cbo_year_def Let_def split: if_splits)
  have k0: "0 \<le> ?k" using lo by (simp add: py_ord_def)
  have "?k \<le> py_ord (last_col (CBO_YEAR S))"
    using eq hi by (simp add: cindex_def)
  then have k1: "?k < 1114112" using valid by (simp add: py_ord_def)
  have chr: "py_chr (py_ord (first_col (CBO_YEAR S)) + yr - first_year (CBO_YEAR S)) =
             Inr (nat ?k)"
    using k0 k1 by (simp add: py_chr_def algebra_simps)
  have "py_ord (nat ?k) = ?k" using k0 by (simp add: py_ord_def)
  moreover have "cbo_value pct_num S cbodf name yr =
             ([], case iat cbodf (row entry - 1) (cindex (nat ?k)) of
                    Inl e \<Rightarrow> Inl e
                  | Inr val \<Rightarrow>
                      if pct entry then map_sum id Some (pct_value pct_num val)
                      else Inr (Some val))"
    using cbo_value_in_range [OF known lo hi chr] by (simp add: rindex_def)
  ultimately show "\<exists>ltr. py_ord ltr =
          py_ord (first_col (CBO_YEAR S)) + (yr - first_year (CBO_YEAR S)) \<and>
         cbo_value pct_num S cbodf name yr =
           ([], case iat cbodf (row entry - 1) (cindex ltr) of
                  Inl e \<Rightarrow> Inl e
                | Inr val \<Rightarrow>
                    if pct entry then map_sum id Some (pct_value pct_num val)
                    else Inr (Some val))"
    by blast
next
  show "cbo_value pct_num CBO cbodf ''c_cpiu'' 2021 =
     ([], map_sum id Some (iat cbodf 157 (cindex (letter CHR ''E''))))"
    by (simp add: cbo_value_def cbo_value_checks_def CBO_simps py_chr_def py_ord_def
        letter_def rindex_def split: sum.splits)
next
  show "cbo_value pct_num CBO cbodf ''c_cpiu'' 2034 =
     ([], map_sum id Some (iat cbodf 157 (cindex (letter CHR ''R''))))"
    by (simp add: cbo_value_def cbo_value_checks_def CBO_simps py_chr_def py_ord_def
        letter_def rindex_def split: sum.splits)
qed

theorem cbo_value_reads_year_column_witness:
  "cbo_value id CBO cbo_2024_sheet ''c_cpiu'' 2021 = ([], Inr (Some (Num 144.814090))) \<and>
   cbo_value id CBO cbo_2024_sheet ''c_cpiu'' 2034 = ([], Inr (Some (Num 206.669280)))"
proof -
  have a: "iat cbo_2024_sheet 157 4 = Inr (Num 144.814090)"
    using example_sheet_iat [of 0 "map Num years_2024" "map Num cpiu_2024"
        "Str ''Tax Year''" "Str ''Chained consumer price index''"]
    by (simp add: cbo_2024_sheet_def years_2024_def cpiu_2024_def)
  have b: "iat cbo_2024_sheet 157 17 = Inr (Num 206.669280)"
    using example_sheet_iat [of 13 "map Num years_2024" "map Num cpiu_2024"
        "Str ''Tax Year''" "Str ''Chained consumer price index''"]
    by (simp add: cbo_2024_sheet_def years_2024_def cpiu_2024_def)
  from cbo_value_reads_year_column [of CBO "''c_cpiu''"
      "\<lparr> row = 158, label = ''Chained consumer price index'', pct = False \<rparr>" 2021 id
      cbo_2024_sheet]
  have "cbo_value id CBO cbo_2024_sheet ''c_cpiu'' 2021 = ([], Inr (Some (Num 144.814090)))"
    using cbo_year_ok a by (auto simp: CBO_simps cindex_def py_ord_def letter_def)
  moreover
  from cbo_value_reads_year_column [of CBO "''c_cpiu''"
      "\<lparr> row = 158, label = ''Chained consumer price index'', pct = False \<rparr>" 2034 id
      cbo_2024_sheet]
  have "cbo_value id CBO cbo_2024_sheet ''c_cpiu'' 2034 = ([], Inr (Some (Num 206.669280)))"
    using cbo_year_ok b by (auto simp: CBO_simps cindex_def py_ord_def letter_def)
  ultimately show ?thesis by simp
qed

subsection \<open>Cells that are not numbers\<close>

text \<open>
  \<^verbatim>\<open>cbo_value\<close> has no check of what the cell holds. In a sheet whose cell E158 is
  the text \<^verbatim>\<open>n.a.\<close>, the request for 2021 returns that text, with nothing written to
  standard error.
\<close>

theorem cbo_value_returns_text_cell:
  "iat footnote_sheet (rindex 158) (cindex (letter CHR ''E'')) = Inr (Str ''n.a.'') \<and>
   cbo_value id CBO footnote_sheet ''c_cpiu'' 2021 = ([], Inr (Some (Str ''n.a.'')))"
proof -
  have "iat footnote_sheet 157 4 = Inr (Str ''n.a.'')"
    using example_sheet_iat [of 0 "map Num years_2024" "Str ''n.a.'' # map Num (tl cpiu_2024)"
        "Str ''Tax Year''" "Str ''Chained consumer price index''"]
    by (simp add: footnote_sheet_def years_2024_def cpiu_2024_def)
  then show ?thesis
    by (simp add: cbo_value_def cbo_value_checks_def CBO_simps py_chr_def py_ord_def
        rindex_def cindex_def letter_def)
qed

text \<open>
  Claim C5, amended. For a key of \<^verbatim>\<open>CBO_ROWS\<close> whose entry has no \<^verbatim>\<open>"pct"\<close>, and a
  year from the first to the last, \<^verbatim>\<open>cbo_value\<close> returns the content of the cell it
  addresses as it is, be it a number, a text or the NaN of an empty cell: nothing is
  converted, nothing is put in its place, and nothing is reported.
\<close>

theorem cbo_value_returns_cell_unchanged:
  assumes "map_of (CBO_ROWS S) name = Some entry"
    and "first_year (CBO_YEAR S) \<le> yr" and "yr \<le> last_year (CBO_YEAR S)"
    and "\<not> pct entry"
    and "py_chr (py_ord (first_col (CBO_YEAR S)) + yr - first_year (CBO_YEAR S)) = Inr ltr"
    and "iat cbodf (rindex (row entry)) (cindex ltr) = Inr val"
  shows "cbo_value pct_num S cbodf name yr = ([], Inr (Some val))"
  using cbo_value_in_range [OF assms(1-3) assms(5), of pct_num cbodf] assms(4,6) by simp

theorem cbo_value_returns_cell_unchanged_witness:
  "cbo_value id CBO cbo_2024_sheet ''c_cpiu'' 2024 = ([], Inr (Some (Num 168.474670)))"
proof -
  have a: "iat cbo_2024_sheet (rindex 158) (cindex 72) = Inr (Num 168.474670)"
    using example_sheet_iat [of 3 "map Num years_2024" "map Num cpiu_2024"
        "Str ''Tax Year''" "Str ''Chained consumer price index''"]
    by (simp add: cbo_2024_sheet_def years_2024_def cpiu_2024_def rindex_def cindex_def
        py_ord_def letter_def)
  show ?thesis
    by (rule cbo_value_returns_cell_unchanged
          [where entry = "\<lparr> row = 158, label = ''Chained consumer price index'', pct = False \<rparr>"
             and ltr = 72])
       (simp_all add: CBO_simps py_chr_def py_ord_def a)
qed

subsection \<open>The label of a row\<close>

text \<open>
  Claim C8. \<^verbatim>\<open>read_cbo_label\<close> goes through \<^verbatim>\<open>CBO_STR_COLS\<close> from left to right:
  when the columns before column \<open>c\<close> hold \<^verbatim>\<open>"nan"\<close> in the row and column \<open>c\<close>
  holds another string, that string is the label. The columns after \<open>c\<close> are not
  looked at: any other content of them (\<open>lab'\<close>) gives the same label.
\<close>

theorem read_cbo_label_first_non_nan:
  assumes "CBO_STR_COLS S = pre @ c # post"
    and "\<forall>p \<in> set pre. \<exists>strs. map_of lab p = Some strs \<and>
                            py_index strs (rindex r) = Inr ''nan''"
    and "map_of lab c = Some strs" and "py_index strs (rindex r) = Inr lbl"
    and "lbl \<noteq> ''nan''"
    and "\<forall>k \<in> set pre \<union> {c}. map_of lab' k = map_of lab k"
  shows "read_cbo_label S lab r = Inr (Some lbl) \<and> read_cbo_label S lab' r = Inr (Some lbl)"
proof -
  have a: "read_cbo_label_cols lab (rindex r) (pre @ c # post) = Inr (Some lbl)"
    using assms(2-5) by (simp add: read_cbo_label_cols_skip)
  have "\<forall>p \<in> set pre. \<exists>strs. map_of lab' p = Some strs \<and>
                          py_index strs (rindex r) = Inr ''nan''"
    using assms(2,6) by simp
  moreover have "map_of lab' c = Some strs" using assms(3,6) by simp
  ultimately have b: "read_cbo_label_cols lab' (rindex r) (pre @ c # post) = Inr (Some lbl)"
    using assms(4,5) by (simp add: read_cbo_label_cols_skip)
  from a b show ?thesis by (simp add: read_cbo_label_def assms(1))
qed

theorem read_cbo_label_first_non_nan_witness:
  "read_cbo_label CBO
     [(0, [''nan'']), (1, [''Tax Year'']), (2, [''Filing status'']), (3, [''nan''])] 1 =
     Inr (Some ''Tax Year'') \<and>
   read_cbo_label CBO
     [(0, [''nan'']), (1, [''Tax Year'']), (2, [''nan'']), (3, [''Single''])] 1 =
     Inr (Some ''Tax Year'')"
proof -
  have cols: "CBO_STR_COLS CBO = [0] @ 1 # [2, 3]" by (simp add: CBO_simps)
  show ?thesis
    by (rule read_cbo_label_first_non_nan [OF cols, where strs = "[''Tax Year'']"])
       (simp_all add: py_index_def rindex_def)
qed

subsection \<open>The check of the labels\<close>

text \<open>
  Claim C1. Let the year columns be consistent, the policy years fit and the file be
  read. If the entries of \<^verbatim>\<open>CBO_ROWS\<close> before \<open>cname\<close> have labels that start as
  expected and the label found for \<open>cname\<close> does not, then
  \<^verbatim>\<open>read_check_spreadsheet\<close> writes one line, which names \<open>cname\<close>, the expected
  label and the label found, and returns \<^verbatim>\<open>None\<close> instead of the frame. The entries
  after \<open>cname\<close> play no role: nothing is written about them, and the result is the
  same whatever they are.
\<close>

theorem read_check_spreadsheet_stops_at_first_mismatch:
  assumes "snd (check_cbo_year S) = 0"
    and "check_policy_years S lky lby = []"
    and "read_excel fname (CBO_SHEET S) = Some cbodf"
    and "extract_labels str_num cbodf (CBO_STR_COLS S) [] = Inr lab"
    and "CBO_ROWS S = pre @ (cname, cdict) # post"
    and "\<forall>d \<in> set pre. \<exists>l. read_cbo_label S lab (row (snd d)) = Inr (Some l) \<and>
                            startswith l (label (snd d))"
    and "read_cbo_label S lab (row cdict) = Inr (Some alabel)"
    and "\<not> startswith alabel (label cdict)"
  shows "read_check_spreadsheet str_num S lky lby read_excel fname =
           ([ReadExcel fname (CBO_SHEET S),
             stderr_write ''READ'' (''for '' @ cname @ '' expected label is '' @
                                    label cdict @ '' but found '' @ alabel)],
            Inr None)"
  using read_check_spreadsheet_read
          [where read_excel = read_excel and str_num = str_num, OF assms(1-3)]
    check_sheet_mismatch [OF assms(4-8)]
  by simp

theorem read_check_spreadsheet_stops_at_first_mismatch_witness:
  "read_check_spreadsheet str_int CBO 2025 2034
     (disk ''cbo.xlsx'' (labels_sheet ''Tax Year'' ''Chained CPI-U index'')) ''cbo.xlsx'' =
   ([ReadExcel ''cbo.xlsx'' 1,
     stderr_write ''READ''
       ''for c_cpiu expected label is Chained consumer price index but found Chained CPI-U index''],
    Inr None)"
proof -
  let ?lab = "[(0, map (py_str str_int)
                (sheet_column (Str ''Tax Year'') (Str ''Chained CPI-U index''))),
          (1, replicate 158 ''nan''), (2, replicate 158 ''nan''),
          (3, replicate 158 ''nan'')]"
  let ?year = "\<lparr> row = 8, label = ''Tax Year'', pct = False \<rparr>"
  let ?cpiu = "\<lparr> row = 158, label = ''Chained consumer price index'', pct = False \<rparr>"
  have 1: "disk ''cbo.xlsx'' (labels_sheet ''Tax Year'' ''Chained CPI-U index'')
             ''cbo.xlsx'' (CBO_SHEET CBO) =
           Some (labels_sheet ''Tax Year'' ''Chained CPI-U index'')"
    by (simp add: disk_def CBO_simps)
  have 2: "extract_labels str_int (labels_sheet ''Tax Year'' ''Chained CPI-U index'')
             (CBO_STR_COLS CBO) [] = Inr ?lab"
    by (simp only: labels_sheet_def CBO_simps labels_of_example)
  have 3: "CBO_ROWS CBO = [(''year'', ?year)] @ (''c_cpiu'', ?cpiu) # []"
    by (simp add: CBO_simps)
  have 4: "\<forall>d \<in> set [(''year'', ?year)].
            \<exists>l. read_cbo_label CBO ?lab (row (snd d)) = Inr (Some l) \<and>
                startswith l (label (snd d))"
    by (simp add: label_of_example startswith_def)
  have 5: "read_cbo_label CBO ?lab (row ?cpiu) = Inr (Some ''Chained CPI-U index'')"
    by (simp add: label_of_example)
  have 6: "\<not> startswith ''Chained CPI-U index'' (label ?cpiu)"
    by (simp add: startswith_def)
  show ?thesis
    using read_check_spreadsheet_stops_at_first_mismatch
      [where read_excel = "disk ''cbo.xlsx'' (labels_sheet ''Tax Year'' ''Chained CPI-U index'')"
         and str_num = str_int, OF cbo_year_ok policy_years_ok 1 2 3 4 5 6]
    by (simp add: CBO_simps)
qed

text \<open>
  Claim C4. An entry whose row has the label \<open>alabel\<close> passes the check exactly when
  the expected label is a prefix of \<open>alabel\<close>, character for character: then the
  loop goes on with the next entry, and otherwise it reports the two labels and ends.
  \<^verbatim>\<open>Chained CPI-U index\<close> does not start with \<^verbatim>\<open>Chained consumer price index\<close>, and a
  label in another case does not start with the expected one either.
\<close>

theorem label_check_is_exact_prefix:
  "(read_cbo_label S lab (row cdict) = Inr (Some alabel) \<longrightarrow>
      check_rows S lab ((cname, cdict) # items) =
        (if prefix (label cdict) alabel then check_rows S lab items
         else ([stderr_write ''READ'' (''for '' @ cname @ '' expected label is '' @
                                       label cdict @ '' but found '' @ alabel)],
               Inr False))) \<and>
   \<not> startswith ''Chained CPI-U index'' ''Chained consumer price index'' \<and>
   \<not> startswith ''chained consumer price index'' ''Chained consumer price index''"
  by (simp add: startswith_prefix prefix_def)

theorem label_check_is_exact_prefix_witness:
  "check_rows CBO [(0, replicate 157 ''nan'' @ [''Chained CPI-U index''])]
     [(''c_cpiu'', \<lparr> row = 158, label = ''Chained consumer price index'', pct = False \<rparr>)] =
   ([stderr_write ''READ''
       ''for c_cpiu expected label is Chained consumer price index but found Chained CPI-U index''],
    Inr False)"
proof -
  have "read_cbo_label CBO [(0, replicate 157 ''nan'' @ [''Chained CPI-U index''])]
          (row \<lparr> row = 158, label = ''Chained consumer price index'', pct = False \<rparr>) =
        Inr (Some ''Chained CPI-U index'')"
    by (simp add: read_cbo_label_def CBO_simps rindex_def py_index_def nth_append)
  with label_check_is_exact_prefix
         [of CBO "[(0, replicate 157 ''nan'' @ [''Chained CPI-U index''])]"
            "\<lparr> row = 158, label = ''Chained consumer price index'', pct = False \<rparr>"
            "''Chained CPI-U index''" "''c_cpiu''" "[]"]
  show ?thesis
    by (simp add: prefix_def)
qed

text \<open>
  Claim C6. In a sheet whose row 8 is empty in the columns A to D,
  \<^verbatim>\<open>read_cbo_label\<close> returns \<^verbatim>\<open>None\<close> for the entry \<^verbatim>\<open>year\<close>, and the call of
  \<^verbatim>\<open>startswith\<close> on it ends \<^verbatim>\<open>read_check_spreadsheet\<close> with an
  \<^verbatim>\<open>AttributeError\<close>: no line is written about the entry, and \<^verbatim>\<open>None\<close> is not
  returned.
\<close>

theorem read_check_spreadsheet_blank_row_raises:
  "read_check_spreadsheet str_int CBO 2025 2034 (disk ''cbo.xlsx'' blank_row_sheet)
     ''cbo.xlsx'' =
   ([ReadExcel ''cbo.xlsx'' 1], Inl AttributeError)"
proof -
  let ?lab = "[(0, map (py_str str_int)
                (sheet_column NaN (Str ''Chained consumer price index''))),
          (1, replicate 158 ''nan''), (2, replicate 158 ''nan''),
          (3, replicate 158 ''nan'')]"
  have e: "extract_labels str_int blank_row_sheet (CBO_STR_COLS CBO) [] = Inr ?lab"
    by (simp only: blank_row_sheet_def CBO_simps labels_of_example)
  have "read_cbo_label CBO ?lab 8 = Inr None"
    by (simp add: label_of_example)
  then have "check_rows CBO ?lab (CBO_ROWS CBO) = ([], Inl AttributeError)"
    by (simp add: CBO_simps)
  with e have "check_sheet str_int CBO blank_row_sheet = ([], Inl AttributeError)"
    by (simp add: check_sheet_def)
  then show ?thesis
    using read_check_spreadsheet_read
      [where read_excel = "disk ''cbo.xlsx'' blank_row_sheet" and str_num = str_int
         and fname = "''cbo.xlsx''" and cbodf = blank_row_sheet,
       OF cbo_year_ok policy_years_ok]
    by (simp add: disk_def CBO_simps)
qed

section \<open>Properties of the wage bins\<close>

subsection \<open>Auxiliary facts\<close>

lemma take_drop_nth: "a + m \<le> length xs \<Longrightarrow> take m (drop a xs) = map ((!) xs) [a..<a + m]"
  by (rule nth_equalityI) (auto simp: add.commute)

lemma py_slice_rows:
  assumes "0 \<le> lo" and "lo \<le> hi" and "hi \<le> int (length xs)"
  shows "py_slice xs lo hi = map ((!) xs) [nat lo..<nat hi]"
proof -
  have "py_slice xs lo hi = take (nat (hi - lo)) (drop (nat lo) xs)"
    using assms by (simp add: py_slice_def Let_def min_def)
  also have "\<dots> = map ((!) xs) [nat lo..<nat lo + nat (hi - lo)]"
    using assms by (intro take_drop_nth) linarith
  also have "nat lo + nat (hi - lo) = nat hi"
    using assms by linarith
  finally show ?thesis .
qed

lemma bin_rows:
  assumes "0 \<le> i" and "i \<le> j" and "j < int (length xs)"
  shows "py_slice xs i (j + 1) = map ((!) xs) [nat i..<Suc (nat j)]"
proof -
  have "py_slice xs i (j + 1) = map ((!) xs) [nat i..<nat (j + 1)]"
    using assms by (intro py_slice_rows) auto
  moreover have "nat (j + 1) = Suc (nat j)" using assms by linarith
  ultimately show ?thesis by simp
qed




lemma sum_list_rows:
  fixes xs :: "'a::comm_monoid_add list"
  assumes "i \<le> j"
  shows "sum_list (map ((!) xs) [i..<Suc j]) = (\<Sum>k = i..j. xs ! k)"
proof -
  have "sum_list (map ((!) xs) [i..<Suc j]) = sum ((!) xs) (set [i..<Suc j])"
    by (simp only: interv_sum_list_conv_sum_set_nat)
  also have "set [i..<Suc j] = {i..j}" by auto
  finally show ?thesis .
qed

lemma int64_bin:
  assumes "0 \<le> i" and "i \<le> j" and "j < int (length xs)"
  shows "astype_int np (series_sum np (series_iloc (Int64 xs) i (j + 1))) = (\<Sum>k = nat i..nat j. xs ! k)"
  using assms by (simp add: bin_rows sum_list_rows del: upt_Suc)

lemma float64_bin:
  assumes "0 \<le> i" and "i \<le> j" and "j < int (length ys)"
  shows "astype_int np (series_sum np (series_iloc (Float64 ys) i (j + 1))) =
         to_int64 np (nansum np (map ((!) ys) [nat i..<Suc (nat j)]))"
  using assms by (simp add: bin_rows del: upt_Suc)

lemma sint_sum:
  fixes f :: "nat \<Rightarrow> 64 word"
  assumes "- (2 ^ 63) \<le> (\<Sum>k\<in>A. sint (f k))" and "(\<Sum>k\<in>A. sint (f k)) < 2 ^ 63"
  shows "sint (\<Sum>k\<in>A. f k) = (\<Sum>k\<in>A. sint (f k))"
proof -
  have eq: "(\<Sum>k\<in>A. f k) = word_of_int (\<Sum>k\<in>A. sint (f k))"
    by (simp add: of_int_sum)
  have "sint (\<Sum>k\<in>A. f k) = sint (word_of_int (\<Sum>k\<in>A. sint (f k)) :: 64 word)"
    by (rule arg_cong [OF eq])
  also have "\<dots> = signed_take_bit 63 (\<Sum>k\<in>A. sint (f k))"
    by (simp only: sint_sbintrunc') simp
  also have "\<dots> = (\<Sum>k\<in>A. sint (f k))"
    using assms by (intro signed_take_bit_int_eq_self) simp_all
  finally show ?thesis .
qed

lemma wages_loop_map:
  "wages_loop np col indicies was =
     was @ map (\<lambda>b. astype_int np (series_sum np (series_iloc col (fst b) (snd b + 1)))) indicies"
  by (induction np col indicies was rule: wages_loop.induct) (auto simp: Let_def)

lemma level_columns_append: "level_columns k (xs @ ys) = level_columns k xs @ level_columns k ys"
  by (simp add: level_columns_def)

lemma level_columns_none:
  assumes "\<forall>c \<in> set pre. take 3 (fst c) \<noteq> [k1, k2, k3]"
  shows "level_columns k3 (level_columns k2 (level_columns k1 pre)) = []"
  using assms
proof (induction pre)
  case Nil
  then show ?case by (simp add: level_columns_def)
next
  case (Cons c pre)
  obtain ls v where c: "c = (ls, v)" by (cases c)
  from Cons have ih: "level_columns k3 (level_columns k2 (level_columns k1 pre)) = []" by simp
  from Cons.prems c have ne: "take 3 ls \<noteq> [k1, k2, k3]" by simp
  have "level_columns k3 (level_columns k2 (level_columns k1 [c])) = []"
  proof (cases ls)
    case Nil
    then show ?thesis by (simp add: level_columns_def c)
  next
    case (Cons a l1)
    note l = this
    show ?thesis
    proof (cases l1)
      case Nil
      then show ?thesis by (simp add: level_columns_def c l)
    next
      case (Cons b l2)
      note l1 = this
      show ?thesis
      proof (cases l2)
        case Nil
        then show ?thesis by (simp add: level_columns_def c l l1)
      next
        case (Cons d l3)
        with ne l l1 show ?thesis by (auto simp: level_columns_def c)
      qed
    qed
  qed
  with ih show ?case
    using level_columns_append [of k1 "[c]" pre] by (simp add: level_columns_append)
qed

lemma salaries_and_wages_first:
  assumes "columns data = pre @ (''Salaries and wages'' # ''Unnamed: 6_level_1'' #
                                 ''Unnamed: 6_level_2'' # rest, col) # post"
    and "\<forall>c \<in> set pre. take 3 (fst c) \<noteq>
           [''Salaries and wages'', ''Unnamed: 6_level_1'', ''Unnamed: 6_level_2'']"
  shows "salaries_and_wages data = Inr col"
proof -
  define L1 where "L1 = level_columns ''Salaries and wages'' (columns data)"
  define L2 where "L2 = level_columns ''Unnamed: 6_level_1'' L1"
  define L3 where "L3 = level_columns ''Unnamed: 6_level_2'' L2"
  have 1: "L1 = level_columns ''Salaries and wages'' pre @
           (''Unnamed: 6_level_1'' # ''Unnamed: 6_level_2'' # rest, col) #
           level_columns ''Salaries and wages'' post"
    unfolding L1_def assms(1) level_columns_append by (simp add: level_columns_def)
  have 2: "L2 = level_columns ''Unnamed: 6_level_1'' (level_columns ''Salaries and wages'' pre) @
           (''Unnamed: 6_level_2'' # rest, col) #
           level_columns ''Unnamed: 6_level_1'' (level_columns ''Salaries and wages'' post)"
    unfolding L2_def 1 level_columns_append by (simp add: level_columns_def)
  have 3: "L3 = (rest, col) #
           level_columns ''Unnamed: 6_level_2'' (level_columns ''Unnamed: 6_level_1''
             (level_columns ''Salaries and wages'' post))"
    unfolding L3_def 2 level_columns_append level_columns_none [OF assms(2)]
    by (simp add: level_columns_def)
  have ne: "L1 \<noteq> []" "L2 \<noteq> []" "L3 \<noteq> []"
    using 1 2 3 by simp_all
  have g1: "getitem_level data ''Salaries and wages'' = Inr (data\<lparr>columns := L1\<rparr>)"
    using ne by (simp add: getitem_level_def Let_def L1_def)
  have g2: "getitem_level (data\<lparr>columns := L1\<rparr>) ''Unnamed: 6_level_1'' =
            Inr (data\<lparr>columns := L2\<rparr>)"
    using ne by (simp add: getitem_level_def Let_def L2_def)
  have g3: "getitem_level (data\<lparr>columns := L2\<rparr>) ''Unnamed: 6_level_2'' =
            Inr (data\<lparr>columns := L3\<rparr>)"
    using ne by (simp add: getitem_level_def Let_def L3_def)
  show ?thesis
    by (simp add: salaries_and_wages_def g1 g2 g3) (simp add: 3)
qed





lemma wage_column_length:
  assumes "frame_ok data"
    and "columns data = pre @ (ls, col) # post"
  shows "series_len col = length (index data)"
  using assms by (simp add: frame_ok_def)


lemma soi_example_index: "0 < n \<Longrightarrow> length (index (soi_example n wages)) = n"
  by (simp add: soi_example_def)

lemma soi_example_ok: "0 < n \<Longrightarrow> series_len wages = n \<Longrightarrow> frame_ok (soi_example n wages)"
  by (simp add: frame_ok_def soi_example_def)

lemma soi_example_columns:
  "columns (soi_example n wages) =
     (([''Salaries and wages'', ''Unnamed: 5_level_1'', ''Unnamed: 5_level_2'',
        ''Number of'' @ [CHR 0x0A] @ ''returns''], Int64 (replicate n 7)) #
      map (\<lambda>c. (tl c, Int64 (replicate n 1))) TABLE14COLS) @
     (''Salaries and wages'' # ''Unnamed: 6_level_1'' # ''Unnamed: 6_level_2'' # [''Amount''],
      wages) # []"
  by (simp add: soi_example_def)

lemma soi_example_before:
  "\<forall>c \<in> set (([''Salaries and wages'', ''Unnamed: 5_level_1'', ''Unnamed: 5_level_2'',
        ''Number of'' @ [CHR 0x0A] @ ''returns''], Int64 (replicate n 7)) #
      map (\<lambda>c. (tl c, Int64 (replicate n 1))) TABLE14COLS).
     take 3 (fst c) \<noteq> [''Salaries and wages'', ''Unnamed: 6_level_1'', ''Unnamed: 6_level_2'']"
  by (simp add: TABLE14COLS_def)


subsection \<open>The rows of a wage bin\<close>

text \<open>
  The total of a bin is not always the sum of its rows. With the amounts 0.5 and 0.75
  in rows 3 and 4 of a \<^verbatim>\<open>float64\<close> column, the bin \<open>(3, 4)\<close> of
  \<^verbatim>\<open>PUFWAGES\<close> is 1, where the rows add up to 1.25: \<^verbatim>\<open>.astype(int)\<close> cuts the
  sum. With \<open>2 ^ 62\<close> in each of the rows 17 to 20 of an \<^verbatim>\<open>int64\<close> column, the bin
  \<open>(17, 20)\<close> is 0, where the rows add up to \<open>2 ^ 64\<close>: the sum wraps around.
\<close>

theorem table14_wages_converts_the_sum:
  "fraction_wages ! 3 = 1 / 2 \<and> fraction_wages ! 4 = 3 / 4 \<and>
   table14_wages exact_float64 (soi_example 21 (Float64 fraction_wages)) PUFWAGES =
     Inr [0, 1, 0, 0, 0, 0, 0, 0, 0, 0, 0, 0] \<and>
   map sint (drop 17 huge_wages) =
     [4611686018427387904, 4611686018427387904, 4611686018427387904, 4611686018427387904] \<and>
   table14_wages exact_float64 (soi_example 21 (Int64 huge_wages)) PUFWAGES =
     Inr [0, 0, 0, 0, 0, 0, 0, 0, 0, 0, 0, 0]"
  by code_simp


text \<open>
  Claim C9, amended. Let the table have 21 rows, and let \<open>col\<close> be its one column
  whose first three labels are those of the wages. For a pair \<open>(i, j)\<close> of row
  numbers with \<open>0 \<le> i \<le> j < 21\<close>, \<^verbatim>\<open>table14_wages\<close> computes an \<^verbatim>\<open>int64\<close>
  from the values of \<open>col\<close> in the rows \<open>i\<close> to \<open>j\<close>, both included, and from
  no other row, and returns these numbers in the order of the pairs. In an \<^verbatim>\<open>int64\<close>
  column it is the sum of these rows in \<^verbatim>\<open>int64\<close> arithmetic, which is their sum as
  integers whenever that lies between \<open>- 2 ^ 63\<close> and \<open>2 ^ 63 - 1\<close>. In a
  \<^verbatim>\<open>float64\<close> column it is the sum of these rows converted by \<^verbatim>\<open>.astype(int)\<close>.
  For \<^verbatim>\<open>PUFWAGES\<close> and \<^verbatim>\<open>CPSWAGES\<close> the rows of each bin are written out.
\<close>

theorem table14_wages_sums_inclusive_rows:
  assumes "length (index data) = 21" and "frame_ok data"
    and "columns data = pre @ (''Salaries and wages'' # ''Unnamed: 6_level_1'' #
                               ''Unnamed: 6_level_2'' # rest, col) # post"
    and "\<forall>c \<in> set pre. take 3 (fst c) \<noteq>
           [''Salaries and wages'', ''Unnamed: 6_level_1'', ''Unnamed: 6_level_2'']"
    and "\<forall>c \<in> set post. take 3 (fst c) \<noteq>
           [''Salaries and wages'', ''Unnamed: 6_level_1'', ''Unnamed: 6_level_2'']"
  shows
    "((\<forall>b \<in> set indicies. 0 \<le> fst b \<and> fst b \<le> snd b \<and> snd b < 21) \<longrightarrow>
        (col = Int64 xs \<longrightarrow>
           table14_wages np data indicies =
             Inr (map (\<lambda>(i, j). \<Sum>k = nat i..nat j. xs ! k) indicies) \<and>
           ((\<forall>b \<in> set indicies.
                - (2 ^ 63) \<le> (\<Sum>k = nat (fst b)..nat (snd b). sint (xs ! k)) \<and>
                (\<Sum>k = nat (fst b)..nat (snd b). sint (xs ! k)) < 2 ^ 63) \<longrightarrow>
              map_sum id (map sint) (table14_wages np data indicies) =
                Inr (map (\<lambda>(i, j). \<Sum>k = nat i..nat j. sint (xs ! k)) indicies))) \<and>
        (col = Float64 ys \<longrightarrow>
           table14_wages np data indicies =
             Inr (map (\<lambda>(i, j). to_int64 np (nansum np (map ((!) ys) [nat i..<Suc (nat j)])))
                    indicies))) \<and>
     (col = Int64 xs \<longrightarrow>
        table14_wages np data PUFWAGES =
          Inr [xs ! 2, xs ! 3 + xs ! 4, xs ! 5 + xs ! 6, xs ! 7 + xs ! 8, xs ! 9,
               xs ! 10, xs ! 11, xs ! 12, xs ! 13, xs ! 14, xs ! 15,
               xs ! 17 + (xs ! 18 + (xs ! 19 + xs ! 20))] \<and>
        table14_wages np data CPSWAGES =
          Inr [xs ! 2 + (xs ! 3 + xs ! 4), xs ! 5 + xs ! 6, xs ! 7 + xs ! 8, xs ! 9,
               xs ! 10, xs ! 11, xs ! 12,
               xs ! 13 + (xs ! 14 + (xs ! 15 + (xs ! 16 + (xs ! 17 + (xs ! 18 +
                 (xs ! 19 + xs ! 20))))))]) \<and>
     (col = Float64 ys \<longrightarrow>
        table14_wages np data PUFWAGES =
          Inr (map (\<lambda>rows. to_int64 np (nansum np rows))
                 [[ys ! 2], [ys ! 3, ys ! 4], [ys ! 5, ys ! 6], [ys ! 7, ys ! 8], [ys ! 9],
                  [ys ! 10], [ys ! 11], [ys ! 12], [ys ! 13], [ys ! 14], [ys ! 15],
                  [ys ! 17, ys ! 18, ys ! 19, ys ! 20]]) \<and>
        table14_wages np data CPSWAGES =
          Inr (map (\<lambda>rows. to_int64 np (nansum np rows))
                 [[ys ! 2, ys ! 3, ys ! 4], [ys ! 5, ys ! 6], [ys ! 7, ys ! 8], [ys ! 9],
                  [ys ! 10], [ys ! 11], [ys ! 12],
                  [ys ! 13, ys ! 14, ys ! 15, ys ! 16, ys ! 17, ys ! 18, ys ! 19, ys ! 20]]))"
proof -
  have sel: "salaries_and_wages data = Inr col"
    by (rule salaries_and_wages_first [OF assms(3,4)])
  have len: "series_len col = 21"
    using wage_column_length [OF assms(2,3)] assms(1) by simp
  have run: "table14_wages np data ind =
             Inr (map (\<lambda>b. astype_int np (series_sum np (series_iloc col (fst b) (snd b + 1)))) ind)"
    for ind
    using assms(1) sel by (simp add: table14_wages_def wages_loop_map)
  have general: "table14_wages np data indicies =
             Inr (map (\<lambda>(i, j). \<Sum>k = nat i..nat j. xs ! k) indicies)"
    if "\<forall>b \<in> set indicies. 0 \<le> fst b \<and> fst b \<le> snd b \<and> snd b < 21" and "col = Int64 xs"
  proof -
    have "map (\<lambda>b. astype_int np (series_sum np (series_iloc col (fst b) (snd b + 1)))) indicies =
          map (\<lambda>(i, j). \<Sum>k = nat i..nat j. xs ! k) indicies"
      using that len by (auto simp: int64_bin simp del: series_iloc.simps series_sum.simps astype_int.simps)
    then show ?thesis by (simp add: run)
  qed
  have exact: "map_sum id (map sint) (table14_wages np data indicies) =
                Inr (map (\<lambda>(i, j). \<Sum>k = nat i..nat j. sint (xs ! k)) indicies)"
    if "\<forall>b \<in> set indicies. 0 \<le> fst b \<and> fst b \<le> snd b \<and> snd b < 21" and "col = Int64 xs"
      and "\<forall>b \<in> set indicies.
                - (2 ^ 63) \<le> (\<Sum>k = nat (fst b)..nat (snd b). sint (xs ! k)) \<and>
                (\<Sum>k = nat (fst b)..nat (snd b). sint (xs ! k)) < 2 ^ 63"
  proof -
    have "map sint (map (\<lambda>(i, j). \<Sum>k = nat i..nat j. xs ! k) indicies) =
          map (\<lambda>(i, j). \<Sum>k = nat i..nat j. sint (xs ! k)) indicies"
      using that(3) by (auto simp: sint_sum)
    then show ?thesis by (simp add: general [OF that(1,2)])
  qed
  have float: "table14_wages np data indicies =
             Inr (map (\<lambda>(i, j). to_int64 np (nansum np (map ((!) ys) [nat i..<Suc (nat j)])))
                    indicies)"
    if "\<forall>b \<in> set indicies. 0 \<le> fst b \<and> fst b \<le> snd b \<and> snd b < 21" and "col = Float64 ys"
  proof -
    have "map (\<lambda>b. astype_int np (series_sum np (series_iloc col (fst b) (snd b + 1)))) indicies =
          map (\<lambda>(i, j). to_int64 np (nansum np (map ((!) ys) [nat i..<Suc (nat j)]))) indicies"
      using that len by (auto simp: float64_bin simp del: series_iloc.simps series_sum.simps astype_int.simps upt_Suc)
    then show ?thesis by (simp add: run)
  qed
  have puf_i: "table14_wages np data PUFWAGES =
          Inr [xs ! 2, xs ! 3 + xs ! 4, xs ! 5 + xs ! 6, xs ! 7 + xs ! 8, xs ! 9,
               xs ! 10, xs ! 11, xs ! 12, xs ! 13, xs ! 14, xs ! 15,
               xs ! 17 + (xs ! 18 + (xs ! 19 + xs ! 20))]" if "col = Int64 xs"
    using len that by (simp add: run PUFWAGES_def py_slice_rows add.assoc)
  have cps_i: "table14_wages np data CPSWAGES =
          Inr [xs ! 2 + (xs ! 3 + xs ! 4), xs ! 5 + xs ! 6, xs ! 7 + xs ! 8, xs ! 9,
               xs ! 10, xs ! 11, xs ! 12,
               xs ! 13 + (xs ! 14 + (xs ! 15 + (xs ! 16 + (xs ! 17 + (xs ! 18 +
                 (xs ! 19 + xs ! 20))))))]" if "col = Int64 xs"
    using len that by (simp add: run CPSWAGES_def py_slice_rows add.assoc)
  have puf_f: "table14_wages np data PUFWAGES =
          Inr (map (\<lambda>rows. to_int64 np (nansum np rows))
                 [[ys ! 2], [ys ! 3, ys ! 4], [ys ! 5, ys ! 6], [ys ! 7, ys ! 8], [ys ! 9],
                  [ys ! 10], [ys ! 11], [ys ! 12], [ys ! 13], [ys ! 14], [ys ! 15],
                  [ys ! 17, ys ! 18, ys ! 19, ys ! 20]])" if "col = Float64 ys"
    using len that by (simp add: run PUFWAGES_def py_slice_rows)
  have cps_f: "table14_wages np data CPSWAGES =
          Inr (map (\<lambda>rows. to_int64 np (nansum np rows))
                 [[ys ! 2, ys ! 3, ys ! 4], [ys ! 5, ys ! 6], [ys ! 7, ys ! 8], [ys ! 9],
                  [ys ! 10], [ys ! 11], [ys ! 12],
                  [ys ! 13, ys ! 14, ys ! 15, ys ! 16, ys ! 17, ys ! 18, ys ! 19, ys ! 20]])"
    if "col = Float64 ys"
    using len that by (simp add: run CPSWAGES_def py_slice_rows)
  show ?thesis
    using general exact float puf_i cps_i puf_f cps_f by blast
qed

theorem table14_wages_sums_inclusive_rows_witness:
  "table14_wages exact_float64 (soi_example 21 (Int64 (powers 21))) PUFWAGES =
     Inr [4, 24, 96, 384, 512, 1024, 2048, 4096, 8192, 16384, 32768, 1966080] \<and>
   map_sum id (map sint)
     (table14_wages exact_float64 (soi_example 21 (Int64 (powers 21))) PUFWAGES) =
     Inr [4, 24, 96, 384, 512, 1024, 2048, 4096, 8192, 16384, 32768, 1966080] \<and>
   table14_wages exact_float64 (soi_example 21 (Float64 fraction_wages)) CPSWAGES =
     Inr [1, 0, 0, 0, 0, 0, 0, 0]"
proof -
  have p: "\<forall>b \<in> set PUFWAGES. 0 \<le> fst b \<and> fst b \<le> snd b \<and> snd b < 21"
    by (simp add: PUFWAGES_def)
  have c: "\<forall>b \<in> set CPSWAGES. 0 \<le> fst b \<and> fst b \<le> snd b \<and> snd b < 21"
    by (simp add: CPSWAGES_def)
  have fits: "\<forall>b \<in> set PUFWAGES.
                - (2 ^ 63) \<le> (\<Sum>k = nat (fst b)..nat (snd b). sint (powers 21 ! k)) \<and>
                (\<Sum>k = nat (fst b)..nat (snd b). sint (powers 21 ! k)) < 2 ^ 63"
    by code_simp
  have w: "map (\<lambda>(i, j). \<Sum>k = nat i..nat j. powers 21 ! k) PUFWAGES =
           [4, 24, 96, 384, 512, 1024, 2048, 4096, 8192, 16384, 32768, 1966080]"
    by code_simp
  have s: "map (\<lambda>(i, j). \<Sum>k = nat i..nat j. sint (powers 21 ! k)) PUFWAGES =
           [4, 24, 96, 384, 512, 1024, 2048, 4096, 8192, 16384, 32768, 1966080]"
    by code_simp
  have f: "map (\<lambda>(i, j). to_int64 exact_float64
                  (nansum exact_float64 (map ((!) fraction_wages) [nat i..<Suc (nat j)])))
             CPSWAGES = [1, 0, 0, 0, 0, 0, 0, 0]"
    by code_simp
  have none: "\<forall>c \<in> set ([] :: (string list \<times> rat series) list). take 3 (fst c) \<noteq>
           [''Salaries and wages'', ''Unnamed: 6_level_1'', ''Unnamed: 6_level_2'']"
    by simp
  have okw: "frame_ok (soi_example 21 (Int64 (powers 21)))"
    by (rule soi_example_ok) (simp_all add: powers_def)
  have okf: "frame_ok (soi_example 21 (Float64 fraction_wages))"
    by (rule soi_example_ok) (simp_all add: fraction_wages_def)
  from table14_wages_sums_inclusive_rows
         [OF soi_example_index okw soi_example_columns soi_example_before none,
          where indicies = PUFWAGES and xs = "powers 21" and np = exact_float64]
    p fits w s
  have a: "table14_wages exact_float64 (soi_example 21 (Int64 (powers 21))) PUFWAGES =
     Inr [4, 24, 96, 384, 512, 1024, 2048, 4096, 8192, 16384, 32768, 1966080]"
    and b: "map_sum id (map sint)
     (table14_wages exact_float64 (soi_example 21 (Int64 (powers 21))) PUFWAGES) =
     Inr [4, 24, 96, 384, 512, 1024, 2048, 4096, 8192, 16384, 32768, 1966080]"
    by simp_all
  from table14_wages_sums_inclusive_rows
         [OF soi_example_index okf soi_example_columns soi_example_before none,
          where indicies = CPSWAGES and ys = fraction_wages and np = exact_float64]
    c f
  have "table14_wages exact_float64 (soi_example 21 (Float64 fraction_wages)) CPSWAGES =
     Inr [1, 0, 0, 0, 0, 0, 0, 0]"
    by simp
  with a b show ?thesis by simp
qed


subsection \<open>The number of rows\<close>



end
